theory Spec2Isabelle
  imports Main "HOL-Library.Word" "HOL-Library.Option_ord"
begin

section \<open>Values, exceptions and the observable trace\<close>

text \<open>
  The monitor of \<^verbatim>\<open>backend/monitoring/contract_monitor.py\<close> talks to three collaborators:
  a chain client (web3), a database session and an e-mail transport. Their answers are
  inputs of the model; what the monitor does to them is recorded, in program order, in a
  list of events. Every exception the source can meet is a subclass of Python's
  \<^verbatim>\<open>Exception\<close>, so every \<^verbatim>\<open>except Exception\<close> handler catches all of them.
\<close>

datatype exn = BlockNotFound | ValueError | TypeError | AttributeError | OtherException string

text \<open>
  The values found in the dictionaries the chain client returns: integers, \<^verbatim>\<open>None\<close>
  (a JSON null), strings and byte strings (\<^verbatim>\<open>HexBytes\<close>). A dictionary keeps its
  items as an association list; it is falsy exactly when it has no item.
\<close>

datatype pyval = PyNone | PyInt int | PyStr string | PyBytes "8 word list"

type_synonym pydict = "(string \<times> pyval) list"

definition dict_get :: "pydict \<Rightarrow> string \<Rightarrow> pyval \<Rightarrow> pyval" where
  "dict_get d k dflt = (case map_of d k of None \<Rightarrow> dflt | Some v \<Rightarrow> v)"

text \<open>\<^verbatim>\<open>x > n\<close> for an integer \<^verbatim>\<open>n\<close>: Python 3 raises TypeError unless \<^verbatim>\<open>x\<close> is a number.\<close>

definition py_int :: "pyval \<Rightarrow> exn + int" where
  "py_int v = (case v of PyInt i \<Rightarrow> Inr i | _ \<Rightarrow> Inl TypeError)"

text \<open>\<^verbatim>\<open>x == 0\<close> never raises.\<close>

definition py_eq_int :: "pyval \<Rightarrow> int \<Rightarrow> bool" where
  "py_eq_int v n = (case v of PyInt i \<Rightarrow> i = n | _ \<Rightarrow> False)"

text \<open>\<^verbatim>\<open>if receipt\<close>: \<^verbatim>\<open>None\<close> and the empty dictionary are falsy.\<close>

definition truthy :: "pydict option \<Rightarrow> bool" where
  "truthy r = (case r of None \<Rightarrow> False | Some d \<Rightarrow> d \<noteq> [])"

text \<open>Python's \<^verbatim>\<open>str\<close> of an integer, as an f-string renders it.\<close>

definition digit_char :: "nat \<Rightarrow> char" where
  "digit_char d = ''0123456789'' ! d"

function str_nat :: "nat \<Rightarrow> string" where
  "str_nat n = (if n < 10 then [digit_char n] else str_nat (n div 10) @ [digit_char (n mod 10)])"
  by pat_completeness auto
termination
  by (relation "measure (\<lambda>n. n)") auto

declare str_nat.simps [simp del]

definition str_int :: "int \<Rightarrow> string" where
  "str_int i = (if i < 0 then CHR ''-'' # str_nat (nat (- i)) else str_nat (nat i))"

datatype level = INFO | WARNING | ERROR

record log_filter =
  fromBlock :: int
  toBlock :: int
  topics :: "pyval list option"
  filter_address :: string

record alert =
  alert_contract_id :: int
  alert_type :: string
  alert_description :: string

text \<open>
  The trace. A log record keeps its level and the constant text that opens the message
  (the part of the f-string before its first field); a threat's message is kept whole,
  since it is the threat's description. \<^verbatim>\<open>Commit\<close> is a call of \<^verbatim>\<open>session.commit()\<close> that
  returned, \<^verbatim>\<open>CommitFailed\<close> one that raised.
\<close>

datatype event =
    Log level string
  | Sleep int
  | GetLogs log_filter
  | Assign string string
  | SessionAdd alert
  | QueryAlertEmails int
  | SendAlertEmail string string string
  | Commit
  | CommitFailed
  | ThreadStart string

section \<open>The chain client\<close>

text \<open>
  The answers of the web3 client during one iteration. \<^verbatim>\<open>from_wei\<close> is
  \<^verbatim>\<open>web3.from_wei(x, 'ether')\<close> as an f-string renders it, and \<^verbatim>\<open>hexbytes_hex\<close> is
  the \<^verbatim>\<open>hex()\<close> method of the hash; both belong to libraries outside the repository.
\<close>

record web3 =
  block_number :: "exn + int"
  get_code :: "string \<Rightarrow> exn + 8 word list"
  get_balance :: "string \<Rightarrow> exn + pyval"
  get_logs :: "log_filter \<Rightarrow> exn + pydict list"
  get_transaction :: "string \<Rightarrow> exn + pydict option"
  get_transaction_receipt :: "string \<Rightarrow> exn + pydict option"
  from_wei :: "pyval \<Rightarrow> exn + string"
  hexbytes_hex :: "8 word list \<Rightarrow> string"

text \<open>\<^verbatim>\<open>web3.to_wei(n, 'ether')\<close>.\<close>

definition to_wei :: "int \<Rightarrow> int" where
  "to_wei n = n * 10 ^ 18"

definition getenv :: "(string \<rightharpoonup> string) \<Rightarrow> string \<Rightarrow> string \<Rightarrow> string" where
  "getenv environ k dflt = (case environ k of None \<Rightarrow> dflt | Some v \<Rightarrow> v)"

text \<open>\<^verbatim>\<open>get_web3\<close>: the endpoint of a network, or ValueError.\<close>

definition get_web3 :: "(string \<rightharpoonup> string) \<Rightarrow> string \<Rightarrow> (exn + string) \<times> event list" where
  "get_web3 environ net =
     (let providers =
        [(''ethereum'', getenv environ ''ETH_RPC_URL'' ''https://eth-mainnet.g.alchemy.com/v2/api-key''),
         (''base'', getenv environ ''BASE_RPC_URL'' ''https://mainnet.base.org''),
         (''base-sepolia'', getenv environ ''BASE_SEPOLIA_RPC_URL'' ''https://sepolia.base.org'')]
      in case map_of providers net of
           None \<Rightarrow> (Inl ValueError, [])
         | Some provider_url \<Rightarrow>
             if provider_url = [] then (Inl ValueError, [])
             else (Inr provider_url, [Log INFO ''Connecting to '']))"

text \<open>
  \<^verbatim>\<open>get_contract_transactions\<close>: two log queries inside one \<^verbatim>\<open>try\<close>; BlockNotFound
  from either is answered with the empty list, any other exception propagates.
\<close>

definition block_not_found :: "exn \<Rightarrow> (exn + pydict list) \<times> event list" where
  "block_not_found e =
     (if e = BlockNotFound then (Inr [], [Log WARNING ''Block range '']) else (Inl e, []))"

definition get_contract_transactions ::
    "web3 \<Rightarrow> string \<Rightarrow> int \<Rightarrow> int \<Rightarrow> (exn + pydict list) \<times> event list" where
  "get_contract_transactions w contract_address from_block to_block =
     (let q1 = \<lparr>fromBlock = from_block, toBlock = to_block, topics = None,
                 filter_address = contract_address\<rparr>;
          q2 = \<lparr>fromBlock = from_block, toBlock = to_block, topics = Some [PyNone],
                 filter_address = contract_address\<rparr>
      in case get_logs w q1 of
           Inl e \<Rightarrow> (fst (block_not_found e), GetLogs q1 # snd (block_not_found e))
         | Inr to_contract \<Rightarrow>
             (case get_logs w q2 of
                Inl e \<Rightarrow> (fst (block_not_found e), [GetLogs q1, GetLogs q2] @ snd (block_not_found e))
              | Inr from_contract \<Rightarrow> (Inr (to_contract @ from_contract), [GetLogs q1, GetLogs q2])))"

section \<open>Threat evaluation\<close>

record threat =
  threat_type :: string
  description :: string

text \<open>
  The body of the \<^verbatim>\<open>try\<close> of \<^verbatim>\<open>analyze_transaction\<close>: the threats appended and
  the records logged so far, and the exception that ended the body, if one did. Line 86
  renders the same value as line 81, so the amount rendered there is used again.
\<close>

definition tx_hash_of :: "web3 \<Rightarrow> pydict \<Rightarrow> exn + string" where
  "tx_hash_of w tx =
     (case dict_get tx ''transactionHash'' (PyStr []) of
        PyBytes bs \<Rightarrow> Inr (hexbytes_hex w bs)
      | _ \<Rightarrow> Inl AttributeError)"

definition details_value :: "pydict option \<Rightarrow> exn + pyval" where
  "details_value tx_details =
     (case tx_details of None \<Rightarrow> Inl AttributeError | Some d \<Rightarrow> Inr (dict_get d ''value'' (PyInt 0)))"

definition high_value_transfer :: "string \<Rightarrow> threat" where
  "high_value_transfer amount =
     \<lparr>threat_type = ''high_value_transfer'', description = ''High value transfer: '' @ amount @ '' ETH''\<rparr>"

definition failed_transaction :: "string \<Rightarrow> threat" where
  "failed_transaction tx_hash =
     \<lparr>threat_type = ''failed_transaction'', description = ''Failed transaction detected: '' @ tx_hash\<rparr>"

definition high_gas_usage :: "int \<Rightarrow> threat" where
  "high_gas_usage gas =
     \<lparr>threat_type = ''high_gas_usage'', description = ''High gas usage: '' @ str_int gas @ '' gas''\<rparr>"

definition warn :: "threat \<Rightarrow> event" where
  "warn t = Log WARNING (description t)"

text \<open>Lines 93 to 112, entered with the threats of the first rule.\<close>

definition receipt_rules ::
    "string \<Rightarrow> pydict option \<Rightarrow> threat list \<Rightarrow> (threat list \<times> event list) \<times> exn option" where
  "receipt_rules tx_hash receipt threats1 =
     (let threats2 =
            (if truthy receipt \<and> py_eq_int (dict_get (the receipt) ''status'' PyNone) 0
             then threats1 @ [failed_transaction tx_hash] else threats1)
      in if truthy receipt then
           (case py_int (dict_get (the receipt) ''gasUsed'' (PyInt 0)) of
              Inl e \<Rightarrow> ((threats2, map warn threats2), Some e)
            | Inr gas \<Rightarrow>
                if gas > 1000000
                then ((threats2 @ [high_gas_usage gas], map warn (threats2 @ [high_gas_usage gas])), None)
                else ((threats2, map warn threats2
                         @ (if threats2 = [] then [Log INFO ''No threats detected in transaction''] else [])),
                      None))
         else ((threats2, map warn threats2
                  @ (if threats2 = [] then [Log INFO ''No threats detected in transaction''] else [])),
               None))"

definition analyze_body :: "web3 \<Rightarrow> pydict \<Rightarrow> (threat list \<times> event list) \<times> exn option" where
  "analyze_body w tx =
     (case tx_hash_of w tx of
        Inl e \<Rightarrow> (([], []), Some e)
      | Inr tx_hash \<Rightarrow>
          if tx_hash = [] then (([], []), None)
          else
            (let l1 = [Log INFO ''Analyzing transaction: ''] in
             case get_transaction w tx_hash of
               Inl e \<Rightarrow> (([], l1), Some e)
             | Inr tx_details \<Rightarrow>
            (case get_transaction_receipt w tx_hash of
               Inl e \<Rightarrow> (([], l1), Some e)
             | Inr receipt \<Rightarrow>
            (case details_value tx_details of
               Inl e \<Rightarrow> (([], l1), Some e)
             | Inr val \<Rightarrow>
            (case from_wei w val of
               Inl e \<Rightarrow> (([], l1), Some e)
             | Inr amount \<Rightarrow>
            (let l2 = l1 @ [Log INFO ''Transaction value: '', Log INFO ''Gas used: ''] in
             case py_int val of
               Inl e \<Rightarrow> (([], l2), Some e)
             | Inr v \<Rightarrow>
                 (let threats1 = (if v > to_wei 10 then [high_value_transfer amount] else []);
                      r = receipt_rules tx_hash receipt threats1
                  in ((fst (fst r), l2 @ snd (fst r)), snd r))))))))"

definition analyze_transaction :: "web3 \<Rightarrow> pydict \<Rightarrow> threat list \<times> event list" where
  "analyze_transaction w tx =
     (case analyze_body w tx of
        ((threats, logs), None) \<Rightarrow> (threats, logs)
      | ((threats, logs), Some e) \<Rightarrow> (threats, logs @ [Log ERROR ''Error analyzing transaction: '']))"

text \<open>
  The loop of lines 172 to 178: the threats of every transaction of the window, in order.
\<close>

fun analyze_all :: "web3 \<Rightarrow> pydict list \<Rightarrow> threat list \<times> event list" where
  "analyze_all w [] = ([], [])"
| "analyze_all w (tx # txs) =
     (let r = analyze_transaction w tx; rest = analyze_all w txs
      in (fst r @ fst rest,
          [Log INFO ''Analyzing transaction ''] @ snd r
            @ (if fst r \<noteq> [] then [Log WARNING ''Found ''] else [])
            @ snd rest))"

section \<open>The database and the e-mail transport\<close>

record contract =
  contract_id :: int
  address :: string
  network :: string
  monitoring_frequency :: string
  status :: string
  threat_level :: string

record alert_email =
  email_contract_id :: int
  email :: string

record database =
  contracts :: "contract list"
  alerts :: "alert list"
  alert_emails :: "alert_email list"

text \<open>
  The rows above carry the fields the monitor reads and writes; the tables themselves are
  declared in \<^verbatim>\<open>db.models\<close>. A session holds the contract it has loaded, with the fields
  assigned since, and the rows added to it.
\<close>

record session =
  loaded :: contract
  pending :: "alert list"

text \<open>\<^verbatim>\<open>session.query(Contract).get(contract_id)\<close>: the row with that primary key.\<close>

definition query_contract :: "database \<Rightarrow> int \<Rightarrow> contract option" where
  "query_contract d cid = find (\<lambda>c. contract_id c = cid) (contracts d)"

text \<open>
  Modelled from the spec: the commit of the persistence collaborator (the session factory
  is handed to the monitor by its caller and is not part of the monitor's file). A commit
  that returns has written every staged change, the updated row and the added rows; one
  that raises has written none, and a session closed without a commit writes nothing.
\<close>

definition commit :: "database \<Rightarrow> session \<Rightarrow> database" where
  "commit d s =
     d\<lparr>contracts := map (\<lambda>c. if contract_id c = contract_id (loaded s) then loaded s else c) (contracts d),
       alerts := alerts d @ pending s\<rparr>"

text \<open>
  What the world outside the monitor answers during one iteration of the loop:
  \<^item> \<^verbatim>\<open>external\<close>: what other parties did to the database since the last iteration;
  \<^item> \<^verbatim>\<open>session_error\<close>: opening the session or loading the contract raises;
  \<^item> \<^verbatim>\<open>environ\<close>, \<^verbatim>\<open>client\<close>, \<^verbatim>\<open>to_checksum_address\<close>: the process environment, the
    chain client's answers, the address normalisation of \<^verbatim>\<open>eth_utils\<close>;
  \<^item> \<^verbatim>\<open>subscribers_error\<close>: the subscriber query raises;
  \<^item> \<^verbatim>\<open>send_alert_email\<close>: the transport of \<^verbatim>\<open>utils.email_service\<close>, \<^verbatim>\<open>None\<close> when
    it returns;
  \<^item> \<^verbatim>\<open>commit_error\<close>: the commit raises.
\<close>

record env =
  external :: "database \<Rightarrow> database"
  session_error :: "exn option"
  environ :: "string \<rightharpoonup> string"
  client :: web3
  to_checksum_address :: "string \<Rightarrow> exn + string"
  subscribers_error :: "exn option"
  send_alert_email :: "string \<Rightarrow> string \<Rightarrow> string \<Rightarrow> exn option"
  commit_error :: "exn option"

section \<open>Notification\<close>

definition newline :: char where
  "newline = char_of (10 :: nat)"

fun join_lines :: "string list \<Rightarrow> string" where
  "join_lines [] = []"
| "join_lines [l] = l"
| "join_lines (l # ls) = l @ [newline] @ join_lines ls"

definition threat_line :: "threat \<Rightarrow> string" where
  "threat_line t = ''- '' @ threat_type t @ '': '' @ description t"

definition alert_message :: "contract \<Rightarrow> threat list \<Rightarrow> string" where
  "alert_message c threats =
     ''Security threats detected for contract '' @ address c @ '':'' @ [newline, newline]
       @ join_lines (map threat_line threats)"

definition send_one :: "env \<Rightarrow> contract \<Rightarrow> threat list \<Rightarrow> alert_email \<Rightarrow> event list" where
  "send_one e c threats a =
     SendAlertEmail (email a) ''Contract Security Alert'' (alert_message c threats)
       # (case send_alert_email e (email a) ''Contract Security Alert'' (alert_message c threats) of
            None \<Rightarrow> [Log INFO ''Sent alert email to '']
          | Some x \<Rightarrow> [Log ERROR ''Failed to send email to ''])"

text \<open>\<^verbatim>\<open>send_notifications\<close> never raises: both of its \<^verbatim>\<open>try\<close> blocks catch everything.\<close>

definition send_notifications :: "env \<Rightarrow> database \<Rightarrow> contract \<Rightarrow> threat list \<Rightarrow> event list" where
  "send_notifications e d c threats =
     QueryAlertEmails (contract_id c)
       # (case subscribers_error e of
            Some x \<Rightarrow> [Log ERROR ''Error sending notifications: '']
          | None \<Rightarrow>
              concat (map (send_one e c threats)
                (filter (\<lambda>a. email_contract_id a = contract_id c) (alert_emails d))))"

definition get_sleep_time :: "string \<Rightarrow> int" where
  "get_sleep_time frequency =
     (case map_of [(''1min'', 60), (''5min'', 300), (''15min'', 900), (''30min'', 1800), (''1hour'', 3600)]
             frequency of
        None \<Rightarrow> 300
      | Some t \<Rightarrow> t)"

section \<open>One iteration of the monitoring loop\<close>

definition make_alert :: "contract \<Rightarrow> threat \<Rightarrow> alert" where
  "make_alert c t =
     \<lparr>alert_contract_id = contract_id c, alert_type = threat_type t,
      alert_description = description t\<rparr>"

definition add_alert :: "contract \<Rightarrow> threat \<Rightarrow> event list" where
  "add_alert c t = [SessionAdd (make_alert c t), Log WARNING ''Created alert: '']"

text \<open>
  Lines 180 to 206, entered with at least one threat: the fields are set on the loaded
  contract, one alert is added per threat, the notifications are sent, and then the
  session is committed. The result is the database afterwards, the exception of a failed
  commit, and the events.
\<close>

definition alerting :: "env \<Rightarrow> database \<Rightarrow> contract \<Rightarrow> threat list \<Rightarrow> (database \<times> exn option) \<times> event list" where
  "alerting e d c all_threats =
     (let s = \<lparr>loaded = c\<lparr>status := ''Warning'', threat_level := ''Medium''\<rparr>,
                pending = map (make_alert c) all_threats\<rparr>;
          staged = [Log WARNING ''Total threats detected: '',
                    Assign ''status'' ''Warning'', Assign ''threat_level'' ''Medium'',
                    Log INFO ''Updated contract status from '', Log INFO ''Updated threat level from '']
                   @ concat (map (add_alert c) all_threats)
                   @ send_notifications e d (loaded s) all_threats
      in case commit_error e of
           Some x \<Rightarrow> ((d, Some x), staged @ [CommitFailed])
         | None \<Rightarrow> ((commit d s, None), staged @ [Commit, Log INFO ''All alerts and notifications processed'']))"

text \<open>How the body of the inner \<^verbatim>\<open>try\<close> (lines 147 to 212) ends.\<close>

datatype scan_end = Skipped | Scanned | Raised exn

definition process_transactions ::
    "env \<Rightarrow> database \<Rightarrow> contract \<Rightarrow> pydict list \<Rightarrow> (database \<times> exn option) \<times> event list" where
  "process_transactions e d c transactions =
     (if transactions \<noteq> [] then
        (let r = analyze_all (client e) transactions;
             l = Log INFO ''Found '' # snd r
         in if fst r \<noteq> [] then
              (let a = alerting e d c (fst r) in (fst a, l @ snd a))
            else ((d, None), l))
      else ((d, None), [Log INFO ''No new transactions found for contract '']))"

definition scan ::
    "env \<Rightarrow> database \<Rightarrow> contract \<Rightarrow> string \<Rightarrow> int \<Rightarrow> int \<Rightarrow> (scan_end \<times> database) \<times> event list" where
  "scan e d c contract_address from_block current_block =
     (case get_code (client e) contract_address of
        Inl x \<Rightarrow> ((Raised x, d), [])
      | Inr code \<Rightarrow>
          if length code = 0 then ((Skipped, d), [Log ERROR ''No contract code found at address ''])
          else
            (let l1 = [Log INFO ''Contract code verified at ''] in
             case get_balance (client e) contract_address of
               Inl x \<Rightarrow> ((Raised x, d), l1)
             | Inr balance \<Rightarrow>
            (case from_wei (client e) balance of
               Inl x \<Rightarrow> ((Raised x, d), l1)
             | Inr b \<Rightarrow>
            (let l2 = l1 @ [Log INFO ''Current contract balance: '', Log INFO ''Fetching transactions for contract ''];
                 t = get_contract_transactions (client e) contract_address from_block current_block
             in case fst t of
                  Inl x \<Rightarrow> ((Raised x, d), l2 @ snd t)
                | Inr transactions \<Rightarrow>
                    (let p = process_transactions e d c transactions
                     in case snd (fst p) of
                          Some x \<Rightarrow> ((Raised x, fst (fst p)), l2 @ snd t @ snd p)
                        | None \<Rightarrow> ((Scanned, fst (fst p)), l2 @ snd t @ snd p))))))"

record mstate =
  db :: database
  last_processed_block :: "int \<rightharpoonup> int"

datatype flow = Next | Stop

definition critical :: "event list" where
  "critical = [Log ERROR ''Critical error in monitoring loop: '', Sleep 60]"

definition sleeping :: "contract \<Rightarrow> event list" where
  "sleeping c = [Log INFO ''Next check in '', Sleep (get_sleep_time (monitoring_frequency c))]"

text \<open>
  The body of \<^verbatim>\<open>while True\<close> in \<^verbatim>\<open>monitor_contract\<close>. \<^verbatim>\<open>Stop\<close> is the \<^verbatim>\<open>break\<close>;
  \<^verbatim>\<open>continue\<close> and the end of the body are both \<^verbatim>\<open>Next\<close>.
\<close>

definition monitor_iteration :: "env \<Rightarrow> int \<Rightarrow> mstate \<Rightarrow> (flow \<times> mstate) \<times> event list" where
  "monitor_iteration e cid st =
     (case session_error e of
        Some x \<Rightarrow> ((Next, st), critical)
      | None \<Rightarrow>
     (case query_contract (db st) cid of
        None \<Rightarrow> ((Stop, st), [Log WARNING ''Contract ''])
      | Some c \<Rightarrow>
     (let l1 = [Log INFO ''Monitoring contract '']; g = get_web3 (environ e) (network c) in
      case fst g of
        Inl x \<Rightarrow> ((Next, st), l1 @ snd g @ critical)
      | Inr url \<Rightarrow>
     (case to_checksum_address e (address c) of
        Inl x \<Rightarrow> ((Next, st), l1 @ snd g @ critical)
      | Inr contract_address \<Rightarrow>
     (case block_number (client e) of
        Inl x \<Rightarrow> ((Next, st), l1 @ snd g @ critical)
      | Inr current_block \<Rightarrow>
     (let from_block = (case last_processed_block st cid of
                          None \<Rightarrow> current_block - 100 | Some b \<Rightarrow> b);
          l2 = l1 @ snd g @ [Log INFO ''Scanning blocks ''];
          s = scan e (db st) c contract_address from_block current_block
      in case fst (fst s) of
           Skipped \<Rightarrow> ((Next, st\<lparr>db := snd (fst s)\<rparr>), l2 @ snd s)
         | Raised x \<Rightarrow>
             ((Next, st\<lparr>db := snd (fst s)\<rparr>),
              l2 @ snd s @ [Log ERROR ''Error processing contract: ''] @ sleeping c)
         | Scanned \<Rightarrow>
             ((Next, st\<lparr>db := snd (fst s),
                        last_processed_block := (last_processed_block st)(cid \<mapsto> current_block)\<rparr>),
              l2 @ snd s @ [Log INFO ''Updated last processed block to ''] @ sleeping c)))))))"

text \<open>
  The loop runs until the contract's row is gone. It is run here over the worlds of its
  successive iterations; when they are used up the loop is still running.
\<close>

fun monitor_loop :: "env list \<Rightarrow> int \<Rightarrow> mstate \<Rightarrow> (flow \<times> mstate) \<times> event list" where
  "monitor_loop [] cid st = ((Next, st), [])"
| "monitor_loop (e # es) cid st =
     (let r = monitor_iteration e cid (st\<lparr>db := external e (db st)\<rparr>)
      in case fst (fst r) of
           Stop \<Rightarrow> r
         | Next \<Rightarrow> (let r' = monitor_loop es cid (snd (fst r)) in (fst r', snd r @ snd r')))"

definition monitor_contract :: "env list \<Rightarrow> int \<Rightarrow> mstate \<Rightarrow> (flow \<times> mstate) \<times> event list" where
  "monitor_contract es cid st =
     (let r = monitor_loop es cid st
      in (fst r, Log INFO ''Starting monitoring service for contract ID: '' # snd r))"

text \<open>The cursor of a contract after each iteration that was run.\<close>

fun cursors :: "env list \<Rightarrow> int \<Rightarrow> mstate \<Rightarrow> int option list" where
  "cursors [] cid st = []"
| "cursors (e # es) cid st =
     (let r = monitor_iteration e cid (st\<lparr>db := external e (db st)\<rparr>)
      in last_processed_block (snd (fst r)) cid
           # (case fst (fst r) of Stop \<Rightarrow> [] | Next \<Rightarrow> cursors es cid (snd (fst r))))"

section \<open>The supervisor\<close>

text \<open>
  A registered thread: its name, its daemon flag, and whether its loop is still running
  (which \<^verbatim>\<open>start_monitoring\<close> never asks).
\<close>

record thread =
  thread_name :: string
  daemon :: bool
  alive :: bool

definition start_monitoring :: "int \<Rightarrow> (int \<rightharpoonup> thread) \<Rightarrow> (int \<rightharpoonup> thread) \<times> event list" where
  "start_monitoring cid monitors =
     (if cid \<notin> dom monitors then
        (monitors(cid \<mapsto> \<lparr>thread_name = ''contract-monitor-'' @ str_int cid, daemon = True, alive = True\<rparr>),
         [Log INFO ''Starting new monitor thread for contract '',
          ThreadStart (''contract-monitor-'' @ str_int cid),
          Log INFO ''Monitor thread started for contract ''])
      else (monitors, [Log WARNING ''Monitor already exists for contract '']))"

section \<open>Observations on a trace\<close>

definition added_alerts :: "event list \<Rightarrow> alert list" where
  "added_alerts evs = concat (map (\<lambda>ev. case ev of SessionAdd a \<Rightarrow> [a] | _ \<Rightarrow> []) evs)"

definition assignments :: "event list \<Rightarrow> (string \<times> string) list" where
  "assignments evs = concat (map (\<lambda>ev. case ev of Assign f v \<Rightarrow> [(f, v)] | _ \<Rightarrow> []) evs)"

definition sleeps :: "event list \<Rightarrow> int list" where
  "sleeps evs = concat (map (\<lambda>ev. case ev of Sleep n \<Rightarrow> [n] | _ \<Rightarrow> []) evs)"

definition errors :: "event list \<Rightarrow> string list" where
  "errors evs = concat (map (\<lambda>ev. case ev of Log ERROR m \<Rightarrow> [m] | _ \<Rightarrow> []) evs)"

definition log_queries :: "event list \<Rightarrow> log_filter list" where
  "log_queries evs = concat (map (\<lambda>ev. case ev of GetLogs q \<Rightarrow> [q] | _ \<Rightarrow> []) evs)"

definition thread_starts :: "event list \<Rightarrow> string list" where
  "thread_starts evs = concat (map (\<lambda>ev. case ev of ThreadStart n \<Rightarrow> [n] | _ \<Rightarrow> []) evs)"

text \<open>What a session is asked to do, and what the transport is asked to send, in order.\<close>

definition session_events :: "event list \<Rightarrow> event list" where
  "session_events evs =
     filter (\<lambda>ev. case ev of Assign f v \<Rightarrow> True | SessionAdd a \<Rightarrow> True | QueryAlertEmails i \<Rightarrow> True
                   | SendAlertEmail t s b \<Rightarrow> True | Commit \<Rightarrow> True | CommitFailed \<Rightarrow> True
                   | _ \<Rightarrow> False) evs"

text \<open>No notification event comes before the first commit that succeeded.\<close>

fun committed_before_notifying :: "event list \<Rightarrow> bool" where
  "committed_before_notifying [] = True"
| "committed_before_notifying (Commit # evs) = True"
| "committed_before_notifying (QueryAlertEmails i # evs) = False"
| "committed_before_notifying (SendAlertEmail t s b # evs) = False"
| "committed_before_notifying (ev # evs) = committed_before_notifying evs"


section \<open>Path conditions\<close>

text \<open>
  The iteration gets as far as the inner \<^verbatim>\<open>try\<close> (line 146) with contract \<open>c\<close>, the
  normalised address \<open>a\<close> and the height \<open>cur\<close>.
\<close>

definition reaches_scan :: "env \<Rightarrow> int \<Rightarrow> mstate \<Rightarrow> contract \<Rightarrow> string \<Rightarrow> int \<Rightarrow> bool" where
  "reaches_scan e cid st c a cur =
     (session_error e = None \<and> query_contract (db st) cid = Some c
      \<and> \<not> isl (fst (get_web3 (environ e) (network c)))
      \<and> to_checksum_address e (address c) = Inr a
      \<and> block_number (client e) = Inr cur)"

text \<open>The code at \<open>a\<close> is not empty and the balance is read and rendered (lines 148 to 157).\<close>

definition reaches_fetch :: "env \<Rightarrow> string \<Rightarrow> bool" where
  "reaches_fetch e a =
     ((case get_code (client e) a of Inl x \<Rightarrow> False | Inr code \<Rightarrow> code \<noteq> [])
      \<and> (case get_balance (client e) a of Inl x \<Rightarrow> False
          | Inr balance \<Rightarrow> \<not> isl (from_wei (client e) balance)))"

text \<open>The start of the window of an iteration that reads the height \<open>cur\<close> (line 142).\<close>

definition window_start :: "mstate \<Rightarrow> int \<Rightarrow> int \<Rightarrow> int" where
  "window_start st cid cur = (case last_processed_block st cid of None \<Rightarrow> cur - 100 | Some b \<Rightarrow> b)"

section \<open>Sample worlds\<close>

definition sample_hash :: "8 word list" where
  "sample_hash = [0xAB, 0xCD]"

definition sample_log :: pydict where
  "sample_log = [(''transactionHash'', PyBytes sample_hash)]"

definition sample_contract :: contract where
  "sample_contract =
     \<lparr>contract_id = 1, address = ''0xabc'', network = ''base'', monitoring_frequency = ''5min'',
      status = ''Normal'', threat_level = ''Low''\<rparr>"

definition sample_db :: database where
  "sample_db =
     \<lparr>contracts = [sample_contract], alerts = [],
      alert_emails = [\<lparr>email_contract_id = 1, email = ''ops@example.org''\<rparr>]\<rparr>"

definition sample_state :: mstate where
  "sample_state = \<lparr>db = sample_db, last_processed_block = Map.empty\<rparr>"

text \<open>
  A client at height 200 whose window holds one log entry, of a transaction with the given
  value and receipt.
\<close>

definition sample_client :: "pyval \<Rightarrow> pydict option \<Rightarrow> web3" where
  "sample_client v receipt =
     \<lparr>block_number = Inr 200,
      get_code = (\<lambda>a. Inr [0x60]),
      get_balance = (\<lambda>a. Inr (PyInt 0)),
      get_logs = (\<lambda>q. if topics q = None then Inr [sample_log] else Inr []),
      get_transaction = (\<lambda>h. Inr (Some [(''value'', v)])),
      get_transaction_receipt = (\<lambda>h. Inr receipt),
      from_wei = (\<lambda>x. case x of PyInt i \<Rightarrow> Inr (str_int (i div 10 ^ 18)) | _ \<Rightarrow> Inl TypeError),
      hexbytes_hex = (\<lambda>bs. ''abcd'')\<rparr>"

definition sample_env :: "web3 \<Rightarrow> env" where
  "sample_env w =
     \<lparr>external = (\<lambda>d. d), session_error = None, environ = Map.empty, client = w,
      to_checksum_address = (\<lambda>a. Inr ''0xABC''), subscribers_error = None,
      send_alert_email = (\<lambda>t s b. None), commit_error = None\<rparr>"

text \<open>A client whose one transaction has a receipt with the given gas.\<close>

definition gas_client :: "int \<Rightarrow> web3" where
  "gas_client g = sample_client (PyInt 0) (Some [(''status'', PyInt 1), (''gasUsed'', PyInt g)])"

text \<open>A client whose first log query succeeds and whose second finds the range unavailable.\<close>

definition second_fails :: web3 where
  "second_fails =
     (sample_client (PyInt 0) None)
       \<lparr>get_logs := (\<lambda>q. if topics q = None then Inr [sample_log] else Inl BlockNotFound)\<rparr>"



text \<open>The endpoint rejects the window as unavailable: at the first query, or at the second.\<close>

definition range_unavailable :: "web3 \<Rightarrow> string \<Rightarrow> int \<Rightarrow> int \<Rightarrow> bool" where
  "range_unavailable w a f t =
     (get_logs w \<lparr>fromBlock = f, toBlock = t, topics = None, filter_address = a\<rparr> = Inl BlockNotFound
      \<or> \<not> isl (get_logs w \<lparr>fromBlock = f, toBlock = t, topics = None, filter_address = a\<rparr>)
        \<and> get_logs w \<lparr>fromBlock = f, toBlock = t, topics = Some [PyNone], filter_address = a\<rparr>
            = Inl BlockNotFound)"

fun is_log :: "event \<Rightarrow> bool" where
  "is_log (Log l m) = True"
| "is_log ev = False"

text \<open>Clients with no deployed code, with an empty window, and with an unavailable block range.\<close>

definition no_code_client :: web3 where
  "no_code_client = (sample_client (PyInt 0) None)\<lparr>get_code := (\<lambda>a. Inr [])\<rparr>"

definition empty_client :: web3 where
  "empty_client = (sample_client (PyInt 0) None)\<lparr>get_logs := (\<lambda>q. Inr [])\<rparr>"

definition unavailable_client :: web3 where
  "unavailable_client = (sample_client (PyInt 0) None)\<lparr>get_logs := (\<lambda>q. Inl BlockNotFound)\<rparr>"

text \<open>
  A world whose window holds one transfer of 15 ether, with no receipt; and the same world
  with a commit that fails.
\<close>

definition transfer_env :: env where
  "transfer_env = sample_env (sample_client (PyInt (15 * 10 ^ 18)) None)"

definition commit_fails_env :: env where
  "commit_fails_env = transfer_env\<lparr>commit_error := Some (OtherException ''OperationalError'')\<rparr>"

definition transfer_alert :: alert where
  "transfer_alert =
     \<lparr>alert_contract_id = 1, alert_type = ''high_value_transfer'',
      alert_description = ''High value transfer: 15 ETH''\<rparr>"

definition transfer_message :: string where
  "transfer_message =
     ''Security threats detected for contract 0xabc:'' @ [newline, newline]
       @ ''- high_value_transfer: High value transfer: 15 ETH''"

text \<open>A world whose one transaction trips all three rules.\<close>

definition busy_env :: env where
  "busy_env =
     sample_env (sample_client (PyInt (15 * 10 ^ 18)) (Some [(''status'', PyInt 0), (''gasUsed'', PyInt 2000000)]))"



section \<open>Rendering of integers\<close>

lemma str_nat_small: "n < 10 \<Longrightarrow> str_nat n = [digit_char n]"
  by (subst str_nat.simps) simp

lemma str_nat_step: "10 \<le> n \<Longrightarrow> str_nat n = str_nat (n div 10) @ [digit_char (n mod 10)]"
  by (subst str_nat.simps) simp

lemmas str_int_eval = str_int_def str_nat_small str_nat_step digit_char_def

section \<open>The transaction fetch\<close>

text \<open>
  C10. When the first log query of a window succeeds and the second raises
  BlockNotFound, \<^verbatim>\<open>get_contract_transactions\<close> returns the empty list: what the first
  query found is dropped.
\<close>

theorem second_query_unavailable:
  assumes "get_logs w \<lparr>fromBlock = f, toBlock = t, topics = None, filter_address = a\<rparr> = Inr found"
    and "get_logs w \<lparr>fromBlock = f, toBlock = t, topics = Some [PyNone], filter_address = a\<rparr>
           = Inl BlockNotFound"
  shows "fst (get_contract_transactions w a f t) = Inr []"
  using assms by (simp add: get_contract_transactions_def block_not_found_def)

theorem second_query_unavailable_witness:
  "get_logs second_fails \<lparr>fromBlock = 100, toBlock = 200, topics = None, filter_address = ''0xABC''\<rparr>
     = Inr [sample_log]
   \<and> get_logs second_fails \<lparr>fromBlock = 100, toBlock = 200, topics = Some [PyNone], filter_address = ''0xABC''\<rparr>
     = Inl BlockNotFound
   \<and> fst (get_contract_transactions second_fails ''0xABC'' 100 200) = Inr []"
proof -
  have first: "get_logs second_fails
      \<lparr>fromBlock = 100, toBlock = 200, topics = None, filter_address = ''0xABC''\<rparr> = Inr [sample_log]"
    by (simp add: second_fails_def sample_client_def)
  have second: "get_logs second_fails
      \<lparr>fromBlock = 100, toBlock = 200, topics = Some [PyNone], filter_address = ''0xABC''\<rparr>
      = Inl BlockNotFound"
    by (simp add: second_fails_def sample_client_def)
  from first second second_query_unavailable [OF first second] show ?thesis
    by simp
qed

section \<open>Threat evaluation: the gas rule\<close>

text \<open>
  C6. For a log entry whose transaction is found, with an integer value, and whose
  receipt has \<^verbatim>\<open>gasUsed = g\<close>: when \<open>g\<close> exceeds 1,000,000 the result holds a
  \<^verbatim>\<open>high_gas_usage\<close> threat whose description carries \<open>g\<close> in decimal; otherwise, and so
  at exactly 1,000,000, it holds no such threat.
\<close>

theorem high_gas_usage_rule:
  assumes "tx_hash_of w tx = Inr h" and "h \<noteq> []"
    and "get_transaction w h = Inr (Some d)"
    and "dict_get d ''value'' (PyInt 0) = PyInt v"
    and "from_wei w (PyInt v) = Inr amount"
    and "get_transaction_receipt w h = Inr (Some r)"
    and "map_of r ''gasUsed'' = Some (PyInt g)"
  shows "if g > 1000000
         then \<exists>t \<in> set (fst (analyze_transaction w tx)).
                threat_type t = ''high_gas_usage''
                \<and> description t = ''High gas usage: '' @ str_int g @ '' gas''
         else \<forall>t \<in> set (fst (analyze_transaction w tx)). threat_type t \<noteq> ''high_gas_usage''"
proof -
  from assms(7) have "r \<noteq> []"
    by auto
  with assms show ?thesis
    by (auto simp: analyze_transaction_def analyze_body_def details_value_def py_int_def
        receipt_rules_def truthy_def dict_get_def high_gas_usage_def high_value_transfer_def
        failed_transaction_def Let_def)
qed

lemma gas_client_path:
  "tx_hash_of (gas_client g) sample_log = Inr ''abcd''"
  "''abcd'' \<noteq> []"
  "get_transaction (gas_client g) ''abcd'' = Inr (Some [(''value'', PyInt 0)])"
  "dict_get [(''value'', PyInt 0)] ''value'' (PyInt 0) = PyInt 0"
  "from_wei (gas_client g) (PyInt 0) = Inr ''0''"
  "get_transaction_receipt (gas_client g) ''abcd''
     = Inr (Some [(''status'', PyInt 1), (''gasUsed'', PyInt g)])"
  "map_of [(''status'', PyInt 1), (''gasUsed'', PyInt g)] ''gasUsed'' = Some (PyInt g)"
  by (simp_all add: gas_client_def sample_client_def sample_log_def tx_hash_of_def dict_get_def
      str_int_eval)

theorem high_gas_usage_rule_witness:
  "(\<exists>t \<in> set (fst (analyze_transaction (gas_client 1500000) sample_log)).
      threat_type t = ''high_gas_usage'' \<and> description t = ''High gas usage: 1500000 gas'')
   \<and> ''high_gas_usage'' \<notin> threat_type ` set (fst (analyze_transaction (gas_client 1000000) sample_log))"
proof -
  have digits: "str_int 1500000 = ''1500000''"
    by (simp add: str_int_eval)
  from high_gas_usage_rule [OF gas_client_path, of 1500000]
    high_gas_usage_rule [OF gas_client_path, of 1000000]
  show ?thesis
    by (auto simp: digits)
qed

section \<open>Threat evaluation: failures\<close>






section \<open>The shape of an iteration\<close>

lemma added_alerts_append [simp]: "added_alerts (xs @ ys) = added_alerts xs @ added_alerts ys"
  by (simp add: added_alerts_def)

lemma assignments_append [simp]: "assignments (xs @ ys) = assignments xs @ assignments ys"
  by (simp add: assignments_def)

lemma sleeps_append [simp]: "sleeps (xs @ ys) = sleeps xs @ sleeps ys"
  by (simp add: sleeps_def)

lemma errors_append [simp]: "errors (xs @ ys) = errors xs @ errors ys"
  by (simp add: errors_def)

lemma log_queries_append [simp]: "log_queries (xs @ ys) = log_queries xs @ log_queries ys"
  by (simp add: log_queries_def)

lemma session_events_append [simp]: "session_events (xs @ ys) = session_events xs @ session_events ys"
  by (simp add: session_events_def)

lemma added_alerts_Cons [simp]:
  "added_alerts (ev # evs) = (case ev of SessionAdd a \<Rightarrow> [a] | _ \<Rightarrow> []) @ added_alerts evs"
  by (simp add: added_alerts_def)

lemma assignments_Cons [simp]:
  "assignments (ev # evs) = (case ev of Assign f v \<Rightarrow> [(f, v)] | _ \<Rightarrow> []) @ assignments evs"
  by (simp add: assignments_def)

lemma sleeps_Cons [simp]:
  "sleeps (ev # evs) = (case ev of Sleep n \<Rightarrow> [n] | _ \<Rightarrow> []) @ sleeps evs"
  by (simp add: sleeps_def)

lemma errors_Cons [simp]:
  "errors (ev # evs) = (case ev of Log ERROR m \<Rightarrow> [m] | _ \<Rightarrow> []) @ errors evs"
  by (simp add: errors_def)

lemma log_queries_Cons [simp]:
  "log_queries (ev # evs) = (case ev of GetLogs q \<Rightarrow> [q] | _ \<Rightarrow> []) @ log_queries evs"
  by (simp add: log_queries_def)

lemma observations_Nil [simp]:
  "added_alerts [] = []" "assignments [] = []" "sleeps [] = []" "errors [] = []"
  "log_queries [] = []" "session_events [] = []"
  by (simp_all add: added_alerts_def assignments_def sleeps_def errors_def log_queries_def
      session_events_def)

lemma is_log_shape: "is_log ev \<Longrightarrow> \<exists>l m. ev = Log l m"
  by (cases ev) simp_all

lemma logs_observed_all:
  "list_all is_log evs \<Longrightarrow>
     added_alerts evs = [] \<and> assignments evs = [] \<and> sleeps evs = [] \<and> log_queries evs = []
     \<and> session_events evs = []"
  by (induction evs) (auto dest!: is_log_shape simp: session_events_def)

lemma logs_observed:
  assumes "list_all is_log evs"
  shows "added_alerts evs = []" and "assignments evs = []" and "sleeps evs = []"
    and "log_queries evs = []" and "session_events evs = []"
  using logs_observed_all [OF assms] by simp_all

lemma analyze_transaction_logs: "list_all is_log (snd (analyze_transaction w tx))"
  by (auto simp: analyze_transaction_def analyze_body_def receipt_rules_def warn_def Let_def
      list_all_iff split: sum.splits option.splits if_splits prod.splits)

lemma analyze_all_logs: "list_all is_log (snd (analyze_all w txs))"
  by (induction txs) (simp_all add: Let_def analyze_transaction_logs)

lemma analyze_all_threats:
  "fst (analyze_all w txs) = concat (map (\<lambda>tx. fst (analyze_transaction w tx)) txs)"
  by (induction txs) (simp_all add: Let_def)

lemma get_web3_logs: "list_all is_log (snd (get_web3 en net))"
  by (simp add: get_web3_def Let_def split: option.splits)

lemma get_web3_errors: "errors (snd (get_web3 en net)) = []"
  by (simp add: get_web3_def Let_def split: option.splits)

lemma fetch_observed:
  "added_alerts (snd (get_contract_transactions w a f t)) = []"
  "assignments (snd (get_contract_transactions w a f t)) = []"
  "sleeps (snd (get_contract_transactions w a f t)) = []"
  "errors (snd (get_contract_transactions w a f t)) = []"
  "session_events (snd (get_contract_transactions w a f t)) = []"
  by (simp_all add: get_contract_transactions_def block_not_found_def Let_def session_events_def
      split: sum.splits)


text \<open>An iteration that reaches the inner \<^verbatim>\<open>try\<close> is its scan, wrapped.\<close>

lemma monitor_iteration_scan:
  assumes "reaches_scan e cid st c a cur"
  shows "monitor_iteration e cid st =
     (let l2 = [Log INFO ''Monitoring contract ''] @ snd (get_web3 (environ e) (network c))
                @ [Log INFO ''Scanning blocks ''];
          s = scan e (db st) c a (window_start st cid cur) cur
      in case fst (fst s) of
           Skipped \<Rightarrow> ((Next, st\<lparr>db := snd (fst s)\<rparr>), l2 @ snd s)
         | Raised x \<Rightarrow>
             ((Next, st\<lparr>db := snd (fst s)\<rparr>),
              l2 @ snd s @ [Log ERROR ''Error processing contract: ''] @ sleeping c)
         | Scanned \<Rightarrow>
             ((Next, st\<lparr>db := snd (fst s),
                        last_processed_block := (last_processed_block st)(cid \<mapsto> cur)\<rparr>),
              l2 @ snd s @ [Log INFO ''Updated last processed block to ''] @ sleeping c))"
  using assms
  by (cases "fst (get_web3 (environ e) (network c))")
    (simp_all add: reaches_scan_def monitor_iteration_def window_start_def Let_def
      split: scan_end.splits)

text \<open>A scan that reaches the fetch is the fetch followed by the processing of what it found.\<close>

lemma scan_fetch:
  assumes "reaches_fetch e a"
  shows "scan e d c a f cur =
     (let l2 = [Log INFO ''Contract code verified at '', Log INFO ''Current contract balance: '',
                Log INFO ''Fetching transactions for contract ''];
          t = get_contract_transactions (client e) a f cur
      in case fst t of
           Inl x \<Rightarrow> ((Raised x, d), l2 @ snd t)
         | Inr transactions \<Rightarrow>
             (let p = process_transactions e d c transactions
              in case snd (fst p) of
                   Some x \<Rightarrow> ((Raised x, fst (fst p)), l2 @ snd t @ snd p)
                 | None \<Rightarrow> ((Scanned, fst (fst p)), l2 @ snd t @ snd p)))"
  using assms
  by (auto simp: reaches_fetch_def scan_def Let_def split: sum.splits)

lemma session_events_Cons [simp]:
  "session_events (ev # evs) =
     (case ev of Assign f v \<Rightarrow> [ev] | SessionAdd a \<Rightarrow> [ev] | QueryAlertEmails i \<Rightarrow> [ev]
      | SendAlertEmail t s b \<Rightarrow> [ev] | Commit \<Rightarrow> [ev] | CommitFailed \<Rightarrow> [ev] | _ \<Rightarrow> [])
       @ session_events evs"
  by (cases ev) (simp_all add: session_events_def)

lemma sample_reaches_scan:
  "block_number w = Inr 200 \<Longrightarrow>
     reaches_scan (sample_env w) 1 sample_state sample_contract ''0xABC'' 200"
  by (simp add: reaches_scan_def sample_env_def sample_state_def sample_db_def sample_contract_def
      query_contract_def get_web3_def getenv_def)

lemma sample_window: "window_start sample_state 1 200 = 100"
  by (simp add: window_start_def sample_state_def)

lemma sample_state_db: "db sample_state = sample_db"
  by (simp add: sample_state_def)

section \<open>No deployed code\<close>

text \<open>
  C8. When the code at the contract's address is empty, the iteration logs one error and
  goes on to the next iteration: the monitor's state (cursor and database) is what it
  was, nothing is slept, and no other error is logged.
\<close>

theorem no_code_skips:
  assumes "reaches_scan e cid st c a cur" and "get_code (client e) a = Inr []"
  shows "fst (monitor_iteration e cid st) = (Next, st)
         \<and> sleeps (snd (monitor_iteration e cid st)) = []
         \<and> errors (snd (monitor_iteration e cid st)) = [''No contract code found at address '']"
proof -
  have s: "scan e (db st) c a (window_start st cid cur) cur
      = ((Skipped, db st), [Log ERROR ''No contract code found at address ''])"
    using assms(2) by (simp add: scan_def)
  show ?thesis
    by (simp add: monitor_iteration_scan [OF assms(1)] s Let_def get_web3_errors
        logs_observed(3) [OF get_web3_logs])
qed

theorem no_code_skips_witness:
  "reaches_scan (sample_env no_code_client) 1 sample_state sample_contract ''0xABC'' 200
   \<and> get_code (client (sample_env no_code_client)) ''0xABC'' = Inr []
   \<and> fst (monitor_iteration (sample_env no_code_client) 1 sample_state) = (Next, sample_state)
   \<and> sleeps (snd (monitor_iteration (sample_env no_code_client) 1 sample_state)) = []
   \<and> errors (snd (monitor_iteration (sample_env no_code_client) 1 sample_state))
       = [''No contract code found at address '']"
proof -
  have reach: "reaches_scan (sample_env no_code_client) 1 sample_state sample_contract ''0xABC'' 200"
    by (rule sample_reaches_scan) (simp add: no_code_client_def sample_client_def)
  have code: "get_code (client (sample_env no_code_client)) ''0xABC'' = Inr []"
    by (simp add: sample_env_def no_code_client_def)
  from reach code no_code_skips [OF reach code] show ?thesis
    by simp
qed

section \<open>An unavailable block range\<close>

text \<open>
  C5. When a log query of the window raises BlockNotFound, the fetch returns the empty
  list, the iteration ends normally with no error logged and a warning recorded, the
  database is untouched and the cursor is set to the current height.
\<close>

theorem unavailable_range_scan:
  assumes "reaches_scan e cid st c a cur" and "reaches_fetch e a"
    and "range_unavailable (client e) a (window_start st cid cur) cur"
  shows "fst (get_contract_transactions (client e) a (window_start st cid cur) cur) = Inr []
         \<and> fst (monitor_iteration e cid st)
             = (Next, st\<lparr>last_processed_block := (last_processed_block st)(cid \<mapsto> cur)\<rparr>)
         \<and> errors (snd (monitor_iteration e cid st)) = []
         \<and> Log WARNING ''Block range '' \<in> set (snd (monitor_iteration e cid st))"
proof -
  let ?t = "get_contract_transactions (client e) a (window_start st cid cur) cur"
  from assms(3) have fetched: "fst ?t = Inr []" and warned: "Log WARNING ''Block range '' \<in> set (snd ?t)"
    by (auto simp: range_unavailable_def get_contract_transactions_def block_not_found_def Let_def
        split: sum.splits)
  have s: "scan e (db st) c a (window_start st cid cur) cur
      = ((Scanned, db st),
         [Log INFO ''Contract code verified at '', Log INFO ''Current contract balance: '',
          Log INFO ''Fetching transactions for contract ''] @ snd ?t
         @ [Log INFO ''No new transactions found for contract ''])"
    by (simp add: scan_fetch [OF assms(2)] fetched process_transactions_def Let_def)
  show ?thesis
    using fetched warned
    by (simp add: monitor_iteration_scan [OF assms(1)] s Let_def get_web3_errors fetch_observed
        sleeping_def)
qed

theorem unavailable_range_scan_witness:
  "reaches_scan (sample_env unavailable_client) 1 sample_state sample_contract ''0xABC'' 200
   \<and> reaches_fetch (sample_env unavailable_client) ''0xABC''
   \<and> range_unavailable (client (sample_env unavailable_client)) ''0xABC'' 100 200
   \<and> fst (get_contract_transactions (client (sample_env unavailable_client)) ''0xABC'' 100 200) = Inr []
   \<and> fst (monitor_iteration (sample_env unavailable_client) 1 sample_state)
       = (Next, sample_state\<lparr>last_processed_block := (last_processed_block sample_state)(1 \<mapsto> 200)\<rparr>)
   \<and> errors (snd (monitor_iteration (sample_env unavailable_client) 1 sample_state)) = []
   \<and> Log WARNING ''Block range '' \<in> set (snd (monitor_iteration (sample_env unavailable_client) 1 sample_state))"
proof -
  have reach: "reaches_scan (sample_env unavailable_client) 1 sample_state sample_contract ''0xABC'' 200"
    by (rule sample_reaches_scan) (simp add: unavailable_client_def sample_client_def)
  have fetch: "reaches_fetch (sample_env unavailable_client) ''0xABC''"
    by (simp add: reaches_fetch_def sample_env_def unavailable_client_def sample_client_def)
  have gone: "range_unavailable (client (sample_env unavailable_client)) ''0xABC''
      (window_start sample_state 1 200) 200"
    by (simp add: range_unavailable_def sample_env_def unavailable_client_def)
  from reach fetch gone [unfolded sample_window]
    unavailable_range_scan [OF reach fetch gone, unfolded sample_window]
  show ?thesis
    by blast
qed

section \<open>A window without threats\<close>

text \<open>
  C7. When the transactions of the window yield no threat (so also when the window holds
  no transaction), the iteration leaves the database as it was: the contract's row, with
  its status and threat level, is unchanged, no alert is added, no field is assigned and
  nothing is committed.
\<close>

theorem no_threats_no_change:
  assumes "reaches_scan e cid st c a cur" and "reaches_fetch e a"
    and "fst (get_contract_transactions (client e) a (window_start st cid cur) cur) = Inr txs"
    and "fst (analyze_all (client e) txs) = []"
  shows "db (snd (fst (monitor_iteration e cid st))) = db st
         \<and> query_contract (db (snd (fst (monitor_iteration e cid st)))) cid = Some c
         \<and> added_alerts (snd (monitor_iteration e cid st)) = []
         \<and> assignments (snd (monitor_iteration e cid st)) = []
         \<and> session_events (snd (monitor_iteration e cid st)) = []"
proof -
  let ?t = "get_contract_transactions (client e) a (window_start st cid cur) cur"
  have p: "fst (process_transactions e (db st) c txs) = (db st, None)"
    and logs: "list_all is_log (snd (process_transactions e (db st) c txs))"
    using assms(4) by (simp_all add: process_transactions_def Let_def analyze_all_logs)
  have s: "scan e (db st) c a (window_start st cid cur) cur
      = ((Scanned, db st),
         [Log INFO ''Contract code verified at '', Log INFO ''Current contract balance: '',
          Log INFO ''Fetching transactions for contract ''] @ snd ?t
         @ snd (process_transactions e (db st) c txs))"
    by (simp add: scan_fetch [OF assms(2)] assms(3) p Let_def)
  from assms(1) have found: "query_contract (db st) cid = Some c"
    by (simp add: reaches_scan_def)
  show ?thesis
    by (simp add: monitor_iteration_scan [OF assms(1)] s Let_def found fetch_observed
        logs_observed [OF logs] logs_observed [OF get_web3_logs] sleeping_def)
qed

lemma sample_reaches_fetch:
  "get_code w = (\<lambda>a. Inr [0x60]) \<Longrightarrow> get_balance w = (\<lambda>a. Inr (PyInt 0)) \<Longrightarrow>
   from_wei w (PyInt 0) = Inr ''0'' \<Longrightarrow> reaches_fetch (sample_env w) ''0xABC''"
  by (simp add: reaches_fetch_def sample_env_def)

theorem no_threats_no_change_witness:
  "reaches_scan (sample_env (sample_client (PyInt 0) None)) 1 sample_state sample_contract ''0xABC'' 200
   \<and> reaches_fetch (sample_env (sample_client (PyInt 0) None)) ''0xABC''
   \<and> fst (get_contract_transactions (client (sample_env (sample_client (PyInt 0) None))) ''0xABC'' 100 200)
       = Inr [sample_log]
   \<and> fst (analyze_all (client (sample_env (sample_client (PyInt 0) None))) [sample_log]) = []
   \<and> db (snd (fst (monitor_iteration (sample_env (sample_client (PyInt 0) None)) 1 sample_state)))
       = sample_db
   \<and> query_contract (db (snd (fst (monitor_iteration (sample_env (sample_client (PyInt 0) None)) 1
         sample_state)))) 1 = Some sample_contract
   \<and> added_alerts (snd (monitor_iteration (sample_env (sample_client (PyInt 0) None)) 1 sample_state)) = []
   \<and> assignments (snd (monitor_iteration (sample_env (sample_client (PyInt 0) None)) 1 sample_state)) = []
   \<and> session_events (snd (monitor_iteration (sample_env (sample_client (PyInt 0) None)) 1 sample_state)) = []
   \<and> fst (get_contract_transactions (client (sample_env empty_client)) ''0xABC'' 100 200) = Inr []
   \<and> db (snd (fst (monitor_iteration (sample_env empty_client) 1 sample_state))) = sample_db
   \<and> session_events (snd (monitor_iteration (sample_env empty_client) 1 sample_state)) = []"
proof -
  let ?e = "sample_env (sample_client (PyInt 0) None)"
  let ?quiet = "sample_env empty_client"
  have reach: "reaches_scan ?e 1 sample_state sample_contract ''0xABC'' 200"
    by (rule sample_reaches_scan) (simp add: sample_client_def)
  have fetch: "reaches_fetch ?e ''0xABC''"
    by (simp add: reaches_fetch_def sample_env_def sample_client_def)
  have txs: "fst (get_contract_transactions (client ?e) ''0xABC'' (window_start sample_state 1 200) 200)
      = Inr [sample_log]"
    by (simp add: get_contract_transactions_def sample_env_def sample_client_def sample_window)
  have none: "fst (analyze_all (client ?e) [sample_log]) = []"
    by (simp add: sample_env_def sample_client_def sample_log_def analyze_transaction_def
        analyze_body_def tx_hash_of_def details_value_def dict_get_def py_int_def py_eq_int_def
        receipt_rules_def truthy_def to_wei_def Let_def str_int_eval)
  have reach0: "reaches_scan ?quiet 1 sample_state sample_contract ''0xABC'' 200"
    by (rule sample_reaches_scan) (simp add: empty_client_def sample_client_def)
  have fetch0: "reaches_fetch ?quiet ''0xABC''"
    by (simp add: reaches_fetch_def sample_env_def empty_client_def sample_client_def)
  have txs0: "fst (get_contract_transactions (client ?quiet) ''0xABC'' (window_start sample_state 1 200) 200)
      = Inr []"
    by (simp add: get_contract_transactions_def sample_env_def empty_client_def sample_window)
  have none0: "fst (analyze_all (client ?quiet) []) = []"
    by simp
  from reach fetch txs [unfolded sample_window] none txs0 [unfolded sample_window]
    no_threats_no_change [OF reach fetch txs none, unfolded sample_state_db]
    no_threats_no_change [OF reach0 fetch0 txs0 none0, unfolded sample_state_db]
  show ?thesis
    by blast
qed

section \<open>The alerting path\<close>

lemmas model_eval =
  sample_env_def sample_client_def sample_state_def sample_db_def sample_contract_def sample_log_def
  monitor_iteration_def query_contract_def get_web3_def getenv_def scan_def
  get_contract_transactions_def block_not_found_def process_transactions_def
  analyze_transaction_def analyze_body_def tx_hash_of_def details_value_def dict_get_def py_int_def
  py_eq_int_def receipt_rules_def truthy_def to_wei_def high_value_transfer_def
  failed_transaction_def high_gas_usage_def warn_def alerting_def add_alert_def make_alert_def
  send_notifications_def send_one_def alert_message_def threat_line_def commit_def sleeping_def
  get_sleep_time_def critical_def Let_def

lemma transfer_run:
  "monitor_iteration transfer_env 1 sample_state =
     ((Next,
       \<lparr>db = sample_db\<lparr>contracts := [sample_contract\<lparr>status := ''Warning'', threat_level := ''Medium''\<rparr>],
                        alerts := [transfer_alert]\<rparr>,
        last_processed_block = [1 \<mapsto> 200]\<rparr>),
      [Log INFO ''Monitoring contract '', Log INFO ''Connecting to '', Log INFO ''Scanning blocks '',
       Log INFO ''Contract code verified at '', Log INFO ''Current contract balance: '',
       Log INFO ''Fetching transactions for contract '',
       GetLogs \<lparr>fromBlock = 100, toBlock = 200, topics = None, filter_address = ''0xABC''\<rparr>,
       GetLogs \<lparr>fromBlock = 100, toBlock = 200, topics = Some [PyNone], filter_address = ''0xABC''\<rparr>,
       Log INFO ''Found '', Log INFO ''Analyzing transaction '', Log INFO ''Analyzing transaction: '',
       Log INFO ''Transaction value: '', Log INFO ''Gas used: '',
       Log WARNING ''High value transfer: 15 ETH'', Log WARNING ''Found '',
       Log WARNING ''Total threats detected: '',
       Assign ''status'' ''Warning'', Assign ''threat_level'' ''Medium'',
       Log INFO ''Updated contract status from '', Log INFO ''Updated threat level from '',
       SessionAdd transfer_alert, Log WARNING ''Created alert: '',
       QueryAlertEmails 1,
       SendAlertEmail ''ops@example.org'' ''Contract Security Alert'' transfer_message,
       Log INFO ''Sent alert email to '', Commit, Log INFO ''All alerts and notifications processed'',
       Log INFO ''Updated last processed block to '', Log INFO ''Next check in '', Sleep 300])"
  by (simp add: transfer_env_def transfer_alert_def transfer_message_def model_eval str_int_eval)

lemma send_one_observed:
  "added_alerts (send_one e c ths a) = []" "assignments (send_one e c ths a) = []"
  "sleeps (send_one e c ths a) = []" "Commit \<notin> set (send_one e c ths a)"
  "CommitFailed \<notin> set (send_one e c ths a)"
  by (simp_all add: send_one_def split: option.splits)

lemma send_notifications_observed:
  "added_alerts (send_notifications e d c ths) = []"
  "assignments (send_notifications e d c ths) = []"
  "Commit \<notin> set (send_notifications e d c ths)
     \<and> CommitFailed \<notin> set (send_notifications e d c ths)"
  "\<exists>rest. send_notifications e d c ths = QueryAlertEmails (contract_id c) # rest"
proof -
  have "added_alerts (concat (map (send_one e c ths) as)) = []" for as
    by (induction as) (simp_all add: send_one_observed)
  then show "added_alerts (send_notifications e d c ths) = []"
    by (simp add: send_notifications_def split: option.splits)
  have "assignments (concat (map (send_one e c ths) as)) = []" for as
    by (induction as) (simp_all add: send_one_observed)
  then show "assignments (send_notifications e d c ths) = []"
    by (simp add: send_notifications_def split: option.splits)
  show "Commit \<notin> set (send_notifications e d c ths)
      \<and> CommitFailed \<notin> set (send_notifications e d c ths)"
    by (auto simp: send_notifications_def send_one_def split: option.splits)
  show "\<exists>rest. send_notifications e d c ths = QueryAlertEmails (contract_id c) # rest"
    by (simp add: send_notifications_def)
qed

lemma add_alert_observed:
  "added_alerts (concat (map (add_alert c) ths)) = map (make_alert c) ths"
  "assignments (concat (map (add_alert c) ths)) = []"
  "session_events (concat (map (add_alert c) ths)) = map (\<lambda>t. SessionAdd (make_alert c t)) ths"
  by (induction ths) (simp_all add: add_alert_def)

text \<open>The events of the alerting path, and the database it leaves.\<close>

lemma alerting_observed:
  "assignments (snd (alerting e d c ths)) = [(''status'', ''Warning''), (''threat_level'', ''Medium'')]"
  "added_alerts (snd (alerting e d c ths)) = map (make_alert c) ths"
  "session_events (snd (alerting e d c ths)) =
     [Assign ''status'' ''Warning'', Assign ''threat_level'' ''Medium'']
       @ map (\<lambda>t. SessionAdd (make_alert c t)) ths
       @ session_events (send_notifications e d (c\<lparr>status := ''Warning'', threat_level := ''Medium''\<rparr>) ths)
       @ (case commit_error e of None \<Rightarrow> [Commit] | Some x \<Rightarrow> [CommitFailed])"
  by (simp_all add: alerting_def Let_def add_alert_observed send_notifications_observed
      split: option.splits)

lemma alerting_result:
  "fst (alerting e d c ths) =
     (case commit_error e of
        None \<Rightarrow> (commit d \<lparr>loaded = c\<lparr>status := ''Warning'', threat_level := ''Medium''\<rparr>,
                             pending = map (make_alert c) ths\<rparr>, None)
      | Some x \<Rightarrow> (d, Some x))"
  by (simp add: alerting_def Let_def split: option.splits)

lemma query_contract_id: "query_contract d cid = Some c \<Longrightarrow> contract_id c = cid"
  by (auto simp: query_contract_def find_Some_iff)

lemma commit_contract:
  assumes "query_contract d cid = Some c" and "contract_id c' = cid"
  shows "query_contract (commit d \<lparr>loaded = c', pending = p\<rparr>) cid = Some c'"
proof -
  have "find (\<lambda>r. contract_id r = cid) rows = Some c \<Longrightarrow>
      find (\<lambda>r. contract_id r = cid) (map (\<lambda>r. if contract_id r = cid then c' else r) rows) = Some c'"
    for rows
    using assms(2) by (induction rows) (auto split: if_splits)
  with assms show ?thesis
    by (simp add: query_contract_def commit_def cong: if_cong)
qed

text \<open>An iteration whose window yields threats is the alerting path, wrapped.\<close>

lemma monitor_iteration_alerting:
  assumes "reaches_scan e cid st c a cur" and "reaches_fetch e a"
    and "fst (get_contract_transactions (client e) a (window_start st cid cur) cur) = Inr txs"
    and "fst (analyze_all (client e) txs) \<noteq> []"
  shows "fst (monitor_iteration e cid st) =
           (Next, case commit_error e of
                    None \<Rightarrow> st\<lparr>db := fst (fst (alerting e (db st) c (fst (analyze_all (client e) txs)))),
                                last_processed_block := (last_processed_block st)(cid \<mapsto> cur)\<rparr>
                  | Some x \<Rightarrow> st)"
    and "assignments (snd (monitor_iteration e cid st))
           = assignments (snd (alerting e (db st) c (fst (analyze_all (client e) txs))))"
    and "added_alerts (snd (monitor_iteration e cid st))
           = added_alerts (snd (alerting e (db st) c (fst (analyze_all (client e) txs))))"
    and "session_events (snd (monitor_iteration e cid st))
           = session_events (snd (alerting e (db st) c (fst (analyze_all (client e) txs))))"
proof -
  let ?t = "get_contract_transactions (client e) a (window_start st cid cur) cur"
  let ?ths = "fst (analyze_all (client e) txs)"
  let ?al = "alerting e (db st) c ?ths"
  from assms(4) have nonempty: "txs \<noteq> []"
    by auto
  have p: "process_transactions e (db st) c txs
      = (fst ?al, Log INFO ''Found '' # snd (analyze_all (client e) txs) @ snd ?al)"
    using assms(4) nonempty by (simp add: process_transactions_def Let_def)
  have s: "scan e (db st) c a (window_start st cid cur) cur
      = ((case commit_error e of None \<Rightarrow> Scanned | Some x \<Rightarrow> Raised x, fst (fst ?al)),
         [Log INFO ''Contract code verified at '', Log INFO ''Current contract balance: '',
          Log INFO ''Fetching transactions for contract ''] @ snd ?t
         @ Log INFO ''Found '' # snd (analyze_all (client e) txs) @ snd ?al)"
    by (simp add: scan_fetch [OF assms(2)] assms(3) p Let_def alerting_result split: option.splits)
  note obs = logs_observed [OF analyze_all_logs] logs_observed [OF get_web3_logs] fetch_observed
  show "fst (monitor_iteration e cid st) =
           (Next, case commit_error e of
                    None \<Rightarrow> st\<lparr>db := fst (fst ?al),
                                last_processed_block := (last_processed_block st)(cid \<mapsto> cur)\<rparr>
                  | Some x \<Rightarrow> st)"
    by (simp add: monitor_iteration_scan [OF assms(1)] s Let_def alerting_result split: option.splits)
  show "assignments (snd (monitor_iteration e cid st)) = assignments (snd ?al)"
    by (simp add: monitor_iteration_scan [OF assms(1)] s Let_def obs sleeping_def split: option.splits)
  show "added_alerts (snd (monitor_iteration e cid st)) = added_alerts (snd ?al)"
    by (simp add: monitor_iteration_scan [OF assms(1)] s Let_def obs sleeping_def split: option.splits)
  show "session_events (snd (monitor_iteration e cid st)) = session_events (snd ?al)"
    by (simp add: monitor_iteration_scan [OF assms(1)] s Let_def obs sleeping_def split: option.splits)
qed

text \<open>
  C2. When the transactions of the window yield at least one threat, the status and the
  threat level are each assigned once, to \<^verbatim>\<open>Warning\<close> and \<^verbatim>\<open>Medium\<close>, however many
  threats there are; one alert is added per threat, so the number of alerts added is the
  sum over the window's transactions of the threats each yields; and once the commit has
  succeeded the contract's row and the alert table hold exactly that.
\<close>

theorem threats_raise_alerts:
  assumes "reaches_scan e cid st c a cur" and "reaches_fetch e a"
    and "fst (get_contract_transactions (client e) a (window_start st cid cur) cur) = Inr txs"
    and "fst (analyze_all (client e) txs) \<noteq> []"
  shows "assignments (snd (monitor_iteration e cid st))
           = [(''status'', ''Warning''), (''threat_level'', ''Medium'')]
         \<and> added_alerts (snd (monitor_iteration e cid st))
             = map (make_alert c) (concat (map (\<lambda>tx. fst (analyze_transaction (client e) tx)) txs))
         \<and> length (added_alerts (snd (monitor_iteration e cid st)))
             = sum_list (map (\<lambda>tx. length (fst (analyze_transaction (client e) tx))) txs)
         \<and> (commit_error e = None \<longrightarrow>
              query_contract (db (snd (fst (monitor_iteration e cid st)))) cid
                = Some (c\<lparr>status := ''Warning'', threat_level := ''Medium''\<rparr>)
              \<and> alerts (db (snd (fst (monitor_iteration e cid st))))
                  = alerts (db st)
                    @ map (make_alert c) (concat (map (\<lambda>tx. fst (analyze_transaction (client e) tx)) txs)))"
proof -
  note it = monitor_iteration_alerting [OF assms]
  have found: "query_contract (db st) cid = Some c"
    using assms(1) by (simp add: reaches_scan_def)
  have added: "added_alerts (snd (monitor_iteration e cid st))
      = map (make_alert c) (concat (map (\<lambda>tx. fst (analyze_transaction (client e) tx)) txs))"
    by (simp add: it(3) alerting_observed analyze_all_threats)
  have counted: "length (added_alerts (snd (monitor_iteration e cid st)))
      = sum_list (map (\<lambda>tx. length (fst (analyze_transaction (client e) tx))) txs)"
    by (simp add: added length_concat comp_def)
  have stored: "query_contract (db (snd (fst (monitor_iteration e cid st)))) cid
        = Some (c\<lparr>status := ''Warning'', threat_level := ''Medium''\<rparr>)
      \<and> alerts (db (snd (fst (monitor_iteration e cid st))))
          = alerts (db st)
            @ map (make_alert c) (concat (map (\<lambda>tx. fst (analyze_transaction (client e) tx)) txs))"
    if "commit_error e = None"
  proof -
    have "query_contract (commit (db st) \<lparr>loaded = c\<lparr>status := ''Warning'', threat_level := ''Medium''\<rparr>,
        pending = p\<rparr>) cid = Some (c\<lparr>status := ''Warning'', threat_level := ''Medium''\<rparr>)" for p
      by (rule commit_contract [OF found]) (simp add: query_contract_id [OF found])
    then show ?thesis
      using that by (simp add: it(1) alerting_result analyze_all_threats) (simp add: commit_def)
  qed
  from added counted stored show ?thesis
    by (simp add: it(2) alerting_observed)
qed

lemma busy_threats:
  "fst (analyze_transaction (client busy_env) sample_log)
     = [high_value_transfer ''15'', failed_transaction ''abcd'', high_gas_usage 2000000]"
  by (simp add: busy_env_def model_eval str_int_eval)

lemma busy_path:
  "reaches_scan busy_env 1 sample_state sample_contract ''0xABC'' 200"
  "reaches_fetch busy_env ''0xABC''"
  "fst (get_contract_transactions (client busy_env) ''0xABC'' (window_start sample_state 1 200) 200)
     = Inr [sample_log]"
  "fst (analyze_all (client busy_env) [sample_log]) \<noteq> []"
proof -
  show "reaches_scan busy_env 1 sample_state sample_contract ''0xABC'' 200"
    unfolding busy_env_def by (rule sample_reaches_scan) (simp add: sample_client_def)
  show "reaches_fetch busy_env ''0xABC''"
    by (simp add: reaches_fetch_def busy_env_def sample_env_def sample_client_def)
  show "fst (get_contract_transactions (client busy_env) ''0xABC'' (window_start sample_state 1 200) 200)
      = Inr [sample_log]"
    by (simp add: get_contract_transactions_def busy_env_def sample_env_def sample_client_def
        sample_log_def sample_window)
  show "fst (analyze_all (client busy_env) [sample_log]) \<noteq> []"
    by (simp add: busy_threats Let_def)
qed

theorem threats_raise_alerts_witness:
  "reaches_scan busy_env 1 sample_state sample_contract ''0xABC'' 200
   \<and> reaches_fetch busy_env ''0xABC''
   \<and> fst (get_contract_transactions (client busy_env) ''0xABC'' 100 200) = Inr [sample_log]
   \<and> length (fst (analyze_all (client busy_env) [sample_log])) = 3
   \<and> commit_error busy_env = None
   \<and> assignments (snd (monitor_iteration busy_env 1 sample_state))
       = [(''status'', ''Warning''), (''threat_level'', ''Medium'')]
   \<and> length (added_alerts (snd (monitor_iteration busy_env 1 sample_state))) = 3
   \<and> query_contract (db (snd (fst (monitor_iteration busy_env 1 sample_state)))) 1
       = Some (sample_contract\<lparr>status := ''Warning'', threat_level := ''Medium''\<rparr>)
   \<and> length (alerts (db (snd (fst (monitor_iteration busy_env 1 sample_state))))) = 3"
proof -
  have ok: "commit_error busy_env = None"
    by (simp add: busy_env_def sample_env_def)
  have three: "length (fst (analyze_all (client busy_env) [sample_log])) = 3"
    by (simp add: busy_threats Let_def)
  from threats_raise_alerts [OF busy_path] ok
  have "assignments (snd (monitor_iteration busy_env 1 sample_state))
        = [(''status'', ''Warning''), (''threat_level'', ''Medium'')]
      \<and> length (added_alerts (snd (monitor_iteration busy_env 1 sample_state))) = 3
      \<and> query_contract (db (snd (fst (monitor_iteration busy_env 1 sample_state)))) 1
          = Some (sample_contract\<lparr>status := ''Warning'', threat_level := ''Medium''\<rparr>)
      \<and> length (alerts (db (snd (fst (monitor_iteration busy_env 1 sample_state))))) = 3"
    by (simp add: busy_threats sample_state_def sample_db_def)
  with busy_path(1,2) busy_path(3) [unfolded sample_window] three ok show ?thesis
    by blast
qed

text \<open>
  C1, as the claim states it, fails: the notifications are sent before the commit. In the
  sample world the subscriber query and the e-mail come before \<^verbatim>\<open>Commit\<close> in the trace;
  and when the commit then fails, the e-mail has been sent although no alert is stored.
\<close>

theorem notified_before_commit_counterexample:
  "\<not> committed_before_notifying (snd (monitor_iteration transfer_env 1 sample_state))
   \<and> SendAlertEmail ''ops@example.org'' ''Contract Security Alert'' transfer_message
       \<in> set (snd (monitor_iteration commit_fails_env 1 sample_state))
   \<and> alerts (db (snd (fst (monitor_iteration commit_fails_env 1 sample_state)))) = []"
proof -
  have "\<not> committed_before_notifying (snd (monitor_iteration transfer_env 1 sample_state))"
    by (simp add: transfer_run)
  moreover have "monitor_iteration commit_fails_env 1 sample_state =
     ((Next, sample_state),
      [Log INFO ''Monitoring contract '', Log INFO ''Connecting to '', Log INFO ''Scanning blocks '',
       Log INFO ''Contract code verified at '', Log INFO ''Current contract balance: '',
       Log INFO ''Fetching transactions for contract '',
       GetLogs \<lparr>fromBlock = 100, toBlock = 200, topics = None, filter_address = ''0xABC''\<rparr>,
       GetLogs \<lparr>fromBlock = 100, toBlock = 200, topics = Some [PyNone], filter_address = ''0xABC''\<rparr>,
       Log INFO ''Found '', Log INFO ''Analyzing transaction '', Log INFO ''Analyzing transaction: '',
       Log INFO ''Transaction value: '', Log INFO ''Gas used: '',
       Log WARNING ''High value transfer: 15 ETH'', Log WARNING ''Found '',
       Log WARNING ''Total threats detected: '',
       Assign ''status'' ''Warning'', Assign ''threat_level'' ''Medium'',
       Log INFO ''Updated contract status from '', Log INFO ''Updated threat level from '',
       SessionAdd transfer_alert, Log WARNING ''Created alert: '',
       QueryAlertEmails 1,
       SendAlertEmail ''ops@example.org'' ''Contract Security Alert'' transfer_message,
       Log INFO ''Sent alert email to '', CommitFailed, Log ERROR ''Error processing contract: '',
       Log INFO ''Next check in '', Sleep 300])"
    by (simp add: commit_fails_env_def transfer_env_def transfer_alert_def transfer_message_def
        model_eval str_int_eval)
  ultimately show ?thesis
    by (simp add: sample_state_def sample_db_def)
qed

text \<open>
  C1, amended. In the alerting path the two fields are assigned and the alerts are added
  to the session first, then the notifications are sent (the subscriber query opens them),
  and the commit comes last, after the notifications. A commit that fails leaves the
  monitor's state as it was: no alert, no changed field, and the cursor not advanced.
\<close>

theorem notified_then_committed:
  assumes "reaches_scan e cid st c a cur" and "reaches_fetch e a"
    and "fst (get_contract_transactions (client e) a (window_start st cid cur) cur) = Inr txs"
    and "fst (analyze_all (client e) txs) \<noteq> []"
  shows "session_events (snd (monitor_iteration e cid st)) =
           [Assign ''status'' ''Warning'', Assign ''threat_level'' ''Medium'']
             @ map (\<lambda>t. SessionAdd (make_alert c t)) (fst (analyze_all (client e) txs))
             @ session_events (send_notifications e (db st)
                 (c\<lparr>status := ''Warning'', threat_level := ''Medium''\<rparr>) (fst (analyze_all (client e) txs)))
             @ (case commit_error e of None \<Rightarrow> [Commit] | Some x \<Rightarrow> [CommitFailed])
         \<and> (\<exists>rest. send_notifications e (db st)
                 (c\<lparr>status := ''Warning'', threat_level := ''Medium''\<rparr>) (fst (analyze_all (client e) txs))
               = QueryAlertEmails (contract_id c) # rest)
         \<and> Commit \<notin> set (send_notifications e (db st)
                 (c\<lparr>status := ''Warning'', threat_level := ''Medium''\<rparr>) (fst (analyze_all (client e) txs)))
         \<and> CommitFailed \<notin> set (send_notifications e (db st)
                 (c\<lparr>status := ''Warning'', threat_level := ''Medium''\<rparr>) (fst (analyze_all (client e) txs)))
         \<and> (commit_error e \<noteq> None \<longrightarrow> snd (fst (monitor_iteration e cid st)) = st)"
proof -
  note it = monitor_iteration_alerting [OF assms]
  have "\<exists>rest. send_notifications e (db st)
        (c\<lparr>status := ''Warning'', threat_level := ''Medium''\<rparr>) (fst (analyze_all (client e) txs))
      = QueryAlertEmails (contract_id c) # rest"
    using send_notifications_observed(4) [of e "db st" "c\<lparr>status := ''Warning'', threat_level := ''Medium''\<rparr>"]
    by simp
  moreover have "commit_error e \<noteq> None \<longrightarrow> snd (fst (monitor_iteration e cid st)) = st"
    by (auto simp: it(1))
  ultimately show ?thesis
    by (simp add: it(4) alerting_observed send_notifications_observed(3))
qed

lemma commit_fails_path:
  "reaches_scan commit_fails_env 1 sample_state sample_contract ''0xABC'' 200"
  "reaches_fetch commit_fails_env ''0xABC''"
  "fst (get_contract_transactions (client commit_fails_env) ''0xABC'' (window_start sample_state 1 200) 200)
     = Inr [sample_log]"
  "fst (analyze_all (client commit_fails_env) [sample_log]) \<noteq> []"
  by (simp_all add: commit_fails_env_def transfer_env_def reaches_scan_def reaches_fetch_def
      window_start_def model_eval str_int_eval)

theorem notified_then_committed_witness:
  "reaches_scan commit_fails_env 1 sample_state sample_contract ''0xABC'' 200
   \<and> reaches_fetch commit_fails_env ''0xABC''
   \<and> fst (get_contract_transactions (client commit_fails_env) ''0xABC'' 100 200) = Inr [sample_log]
   \<and> fst (analyze_all (client commit_fails_env) [sample_log]) \<noteq> []
   \<and> commit_error commit_fails_env \<noteq> None
   \<and> session_events (snd (monitor_iteration commit_fails_env 1 sample_state))
       = [Assign ''status'' ''Warning'', Assign ''threat_level'' ''Medium'', SessionAdd transfer_alert,
          QueryAlertEmails 1,
          SendAlertEmail ''ops@example.org'' ''Contract Security Alert'' transfer_message, CommitFailed]
   \<and> snd (fst (monitor_iteration commit_fails_env 1 sample_state)) = sample_state"
proof -
  have fails: "commit_error commit_fails_env \<noteq> None"
    by (simp add: commit_fails_env_def)
  from notified_then_committed [OF commit_fails_path] fails
  have "session_events (snd (monitor_iteration commit_fails_env 1 sample_state))
        = [Assign ''status'' ''Warning'', Assign ''threat_level'' ''Medium'', SessionAdd transfer_alert,
           QueryAlertEmails 1,
           SendAlertEmail ''ops@example.org'' ''Contract Security Alert'' transfer_message, CommitFailed]
      \<and> snd (fst (monitor_iteration commit_fails_env 1 sample_state)) = sample_state"
    by (simp add: commit_fails_env_def transfer_env_def transfer_alert_def transfer_message_def
        sample_env_def sample_client_def sample_state_def sample_db_def sample_contract_def
        sample_log_def analyze_transaction_def analyze_body_def tx_hash_of_def details_value_def
        dict_get_def py_int_def py_eq_int_def receipt_rules_def truthy_def to_wei_def
        high_value_transfer_def make_alert_def send_notifications_def send_one_def alert_message_def
        threat_line_def Let_def str_int_eval)
  with commit_fails_path(1,2) commit_fails_path(3) [unfolded sample_window] commit_fails_path(4) fails
  show ?thesis
    by blast
qed

section \<open>The block cursor\<close>











text \<open>The last cursor listed is the cursor the loop ends with.\<close>

lemma cursors_last:
  "es \<noteq> [] \<Longrightarrow>
     last (cursors es cid st) = last_processed_block (snd (fst (monitor_loop es cid st))) cid"
proof (induction es arbitrary: st)
  case Nil
  then show ?case by simp
next
  case (Cons e es)
  show ?case
  proof (cases es)
    case Nil
    then show ?thesis
      by (simp add: Let_def split: flow.splits)
  next
    case (Cons e' es')
    with Cons.IH show ?thesis
      by (simp add: Let_def split: flow.splits del: cursors.simps(2) monitor_loop.simps(2))
        (simp add: Let_def split: flow.splits)
  qed
qed




section \<open>The supervisor\<close>

text \<open>
  C9. Calling \<^verbatim>\<open>start_monitoring\<close> twice in succession for a contract id: the second call
  leaves the registry as the first left it and only logs a warning; the id is registered;
  over the two calls one thread is started when the id was not registered before and none
  when it was; and an id whose registered thread is dead is not started again.
\<close>

theorem start_monitoring_idempotent:
  "fst (start_monitoring cid (fst (start_monitoring cid m))) = fst (start_monitoring cid m)
   \<and> snd (start_monitoring cid (fst (start_monitoring cid m)))
       = [Log WARNING ''Monitor already exists for contract '']
   \<and> cid \<in> dom (fst (start_monitoring cid m))
   \<and> length (thread_starts (snd (start_monitoring cid m)
         @ snd (start_monitoring cid (fst (start_monitoring cid m)))))
       = (if cid \<in> dom m then 0 else 1)
   \<and> start_monitoring cid (m(cid \<mapsto> t\<lparr>alive := False\<rparr>))
       = (m(cid \<mapsto> t\<lparr>alive := False\<rparr>), [Log WARNING ''Monitor already exists for contract ''])"
  by (auto simp: start_monitoring_def thread_starts_def)

theorem start_monitoring_idempotent_witness:
  "fst (start_monitoring 7 (fst (start_monitoring 7 Map.empty)))
     = [7 \<mapsto> \<lparr>thread_name = ''contract-monitor-7'', daemon = True, alive = True\<rparr>]
   \<and> thread_starts (snd (start_monitoring 7 Map.empty)
        @ snd (start_monitoring 7 (fst (start_monitoring 7 Map.empty))))
       = [''contract-monitor-7'']"
proof -
  have name: "str_int 7 = ''7''"
    by (simp add: str_int_eval)
  have first: "start_monitoring 7 Map.empty
      = ([7 \<mapsto> \<lparr>thread_name = ''contract-monitor-7'', daemon = True, alive = True\<rparr>],
         [Log INFO ''Starting new monitor thread for contract '', ThreadStart ''contract-monitor-7'',
          Log INFO ''Monitor thread started for contract ''])"
    by (simp add: start_monitoring_def name)
  from start_monitoring_idempotent [of 7 Map.empty] show ?thesis
    by (simp add: first thread_starts_def)
qed

end
